theory Spec2Isabelle
  imports Complex_Main "HOL-Library.Sublist" "HOL-Library.Multiset" "HOL-Library.AList"
begin

section \<open>Campus lost-and-found board: data model\<close>

text \<open>
  The front end is TypeScript. Strings are modelled as lists of 8-bit characters; case
  mapping, white space and digits are those of the ASCII range. An \<open>Item\<close>
  (\<^verbatim>\<open>src/types/index.ts\<close>) is a record of strings; \<open>status\<close> and \<open>type\<close> are
  strings at run time (the dashboard receives \<^verbatim>\<open>any[]\<close>), so they stay strings here,
  and the optional \<open>image\<close> is an option. The field \<open>id\<close> is written \<open>item_id\<close>.
\<close>

record item =
  item_id :: string
  title :: string
  description :: string
  category :: string
  location :: string
  date :: string
  status :: string
  type :: string
  image :: "string option"
  contactName :: string
  contactInfo :: string
  createdAt :: string

text \<open>\<open>FilterOptions\<close> of \<^verbatim>\<open>src/types/index.ts\<close>; the four equality filters carry the
  prefix \<open>f\<close> because an item has fields of the same names.\<close>

record FilterOptions =
  search :: string
  fcategory :: string
  flocation :: string
  ftype :: string
  fstatus :: string
  dateFrom :: string
  dateTo :: string

subsection \<open>String primitives of the run time\<close>

definition toLowerChar :: "char \<Rightarrow> char" where
  "toLowerChar c =
     (case map_of (zip ''ABCDEFGHIJKLMNOPQRSTUVWXYZ'' ''abcdefghijklmnopqrstuvwxyz'') c of
        Some l \<Rightarrow> l
      | None \<Rightarrow> c)"

definition toLowerCase :: "string \<Rightarrow> string" where
  "toLowerCase s = map toLowerChar s"

text \<open>\<^verbatim>\<open>s.includes(q)\<close>: does \<open>q\<close> occur in \<open>s\<close> as a contiguous run, searched from
  every start position (\<open>includes\<close> is a keyword of Isabelle, hence the name).\<close>

fun includesStr :: "string \<Rightarrow> string \<Rightarrow> bool" where
  "includesStr [] q = (q = [])"
| "includesStr (c # s) q = (prefix q (c # s) \<or> includesStr s q)"

definition isDigit :: "char \<Rightarrow> bool" where
  "isDigit c = (c \<in> set ''0123456789'')"

text \<open>White space removed by \<^verbatim>\<open>trim()\<close>: tab, line feed, vertical tab, form feed,
  carriage return and space.\<close>

definition isWhiteSpace :: "char \<Rightarrow> bool" where
  "isWhiteSpace c = (of_char c \<in> {9, 10, 11, 12, 13, 32 :: nat})"

definition trim :: "string \<Rightarrow> string" where
  "trim s = rev (dropWhile isWhiteSpace (rev (dropWhile isWhiteSpace s)))"

subsection \<open>Sorting with a comparator\<close>

text \<open>
  \<^verbatim>\<open>Array.prototype.sort(cmp)\<close> is stable, and for a consistent comparator its result is
  determined by the comparator: it is modelled as a stable insertion sort. A comparator
  returns a number, \<open>None\<close> standing for \<open>NaN\<close>, which the sort treats as \<open>+0\<close>. For
  an inconsistent comparator the language leaves the order to the implementation; the
  theorems about orderings below assume inputs on which the comparator is consistent.
\<close>

definition notAfter :: "int option \<Rightarrow> bool" where
  "notAfter v = (case v of None \<Rightarrow> True | Some d \<Rightarrow> d \<le> 0)"

fun insertBy :: "('a \<Rightarrow> 'a \<Rightarrow> int option) \<Rightarrow> 'a \<Rightarrow> 'a list \<Rightarrow> 'a list" where
  "insertBy cmp x [] = [x]"
| "insertBy cmp x (y # ys) =
     (if notAfter (cmp x y) then x # y # ys else y # insertBy cmp x ys)"

definition sortBy :: "('a \<Rightarrow> 'a \<Rightarrow> int option) \<Rightarrow> 'a list \<Rightarrow> 'a list" where
  "sortBy cmp xs = foldr (insertBy cmp) xs []"

section \<open>Search (\<open>ItemList\<close>: \<open>filteredItems\<close> and \<open>sortedItems\<close>)\<close>

text \<open>
  \<^verbatim>\<open>new Date(s)\<close> belongs to the run time, not to the repository: its time value is the
  parameter \<open>parse\<close>, milliseconds since the epoch, \<open>None\<close> for an invalid date (whose
  time value is \<open>NaN\<close>). Comparing two dates compares their time values, and every
  comparison with \<open>NaN\<close> is false.
\<close>

definition dateGE :: "int option \<Rightarrow> int option \<Rightarrow> bool" where
  "dateGE a b = (case (a, b) of (Some x, Some y) \<Rightarrow> x \<ge> y | _ \<Rightarrow> False)"

definition dateLE :: "int option \<Rightarrow> int option \<Rightarrow> bool" where
  "dateLE a b = (case (a, b) of (Some x, Some y) \<Rightarrow> x \<le> y | _ \<Rightarrow> False)"

definition jsMinus :: "int option \<Rightarrow> int option \<Rightarrow> int option" where
  "jsMinus a b = (case (a, b) of (Some x, Some y) \<Rightarrow> Some (x - y) | _ \<Rightarrow> None)"

text \<open>
  \<^verbatim>\<open>
  const searchLower = filters.search.toLowerCase();
  const matchesSearch =
    item.title.toLowerCase().includes(searchLower) ||
    item.description.toLowerCase().includes(searchLower) ||
    item.location.toLowerCase().includes(searchLower) ||
    item.contactName.toLowerCase().includes(searchLower);
  const matchesCategory = filters.category === 'All' || item.category === filters.category;
  const matchesLocation = filters.location === 'All' || item.location === filters.location;
  const matchesType = filters.type === 'all' || item.type === filters.type;
  const matchesStatus = filters.status === 'all' || item.status === filters.status;
  const matchesDateFrom = !filters.dateFrom || new Date(item.date) >= new Date(filters.dateFrom);
  const matchesDateTo = !filters.dateTo || new Date(item.date) <= new Date(filters.dateTo);
  \<close>
\<close>

definition matchesSearch :: "FilterOptions \<Rightarrow> item \<Rightarrow> bool" where
  "matchesSearch filters item =
     (let searchLower = toLowerCase (search filters) in
        includesStr (toLowerCase (title item)) searchLower
      \<or> includesStr (toLowerCase (description item)) searchLower
      \<or> includesStr (toLowerCase (location item)) searchLower
      \<or> includesStr (toLowerCase (contactName item)) searchLower)"

definition matchesCategory :: "FilterOptions \<Rightarrow> item \<Rightarrow> bool" where
  "matchesCategory filters item =
     (fcategory filters = ''All'' \<or> category item = fcategory filters)"

definition matchesLocation :: "FilterOptions \<Rightarrow> item \<Rightarrow> bool" where
  "matchesLocation filters item =
     (flocation filters = ''All'' \<or> location item = flocation filters)"

definition matchesType :: "FilterOptions \<Rightarrow> item \<Rightarrow> bool" where
  "matchesType filters item = (ftype filters = ''all'' \<or> type item = ftype filters)"

definition matchesStatus :: "FilterOptions \<Rightarrow> item \<Rightarrow> bool" where
  "matchesStatus filters item = (fstatus filters = ''all'' \<or> status item = fstatus filters)"

definition matchesDateFrom :: "(string \<Rightarrow> int option) \<Rightarrow> FilterOptions \<Rightarrow> item \<Rightarrow> bool" where
  "matchesDateFrom parse filters item =
     (dateFrom filters = [] \<or> dateGE (parse (date item)) (parse (dateFrom filters)))"

definition matchesDateTo :: "(string \<Rightarrow> int option) \<Rightarrow> FilterOptions \<Rightarrow> item \<Rightarrow> bool" where
  "matchesDateTo parse filters item =
     (dateTo filters = [] \<or> dateLE (parse (date item)) (parse (dateTo filters)))"

definition filteredItems ::
  "(string \<Rightarrow> int option) \<Rightarrow> FilterOptions \<Rightarrow> item list \<Rightarrow> item list" where
  "filteredItems parse filters items =
     filter (\<lambda>item. matchesSearch filters item \<and> matchesCategory filters item
                  \<and> matchesLocation filters item \<and> matchesType filters item
                  \<and> matchesStatus filters item \<and> matchesDateFrom parse filters item
                  \<and> matchesDateTo parse filters item) items"

text \<open>
  \<^verbatim>\<open>
  const sortedItems = [...filteredItems].sort((a, b) =>
    new Date(b.createdAt).getTime() - new Date(a.createdAt).getTime());
  \<close>
\<close>

definition newestFirst :: "(string \<Rightarrow> int option) \<Rightarrow> item \<Rightarrow> item \<Rightarrow> int option" where
  "newestFirst parse a b = jsMinus (parse (createdAt b)) (parse (createdAt a))"

definition sortedItems ::
  "(string \<Rightarrow> int option) \<Rightarrow> FilterOptions \<Rightarrow> item list \<Rightarrow> item list" where
  "sortedItems parse filters items = sortBy (newestFirst parse) (filteredItems parse filters items)"

text \<open>
  The search as the specification words it, for comparison: the query is a
  case-insensitive substring of one of four fields; each equality filter is either its
  sentinel (\<open>All\<close> for category and location, \<open>all\<close> for type and status) or equal to
  the item's field; the date lies in the inclusive range, a bound that is empty being
  absent.
\<close>

definition satisfiesEveryFilter ::
  "(string \<Rightarrow> int option) \<Rightarrow> FilterOptions \<Rightarrow> item \<Rightarrow> bool" where
  "satisfiesEveryFilter parse f i =
     ((\<exists>field \<in> {title i, description i, location i, contactName i}.
         sublist (toLowerCase (search f)) (toLowerCase field))
      \<and> (fcategory f = ''All'' \<or> category i = fcategory f)
      \<and> (flocation f = ''All'' \<or> location i = flocation f)
      \<and> (ftype f = ''all'' \<or> type i = ftype f)
      \<and> (fstatus f = ''all'' \<or> status i = fstatus f)
      \<and> (dateFrom f = [] \<or>
           (\<exists>d lo. parse (date i) = Some d \<and> parse (dateFrom f) = Some lo \<and> lo \<le> d))
      \<and> (dateTo f = [] \<or>
           (\<exists>d hi. parse (date i) = Some d \<and> parse (dateTo f) = Some hi \<and> d \<le> hi)))"

section \<open>Search suggestions (\<open>ApiService.getSearchSuggestions\<close>)\<close>

text \<open>
  \<^verbatim>\<open>
  async getSearchSuggestions(query: string): Promise<string[]> {
    if (query.length < 2) { return []; }
    const params = new URLSearchParams({ q: query });
    return this.fetchJson<string[]>(`${API_BASE_URL}/search/suggestions?${params.toString()}`);
  }
  \<close>
  The HTTP back end is not part of the sources; its answer to a query is the parameter
  \<open>fetchJson\<close>, which may fail (\<open>fetchJson\<close> throws on a response that is not ok).
\<close>

datatype error = HttpError string | NotFoundError

definition getSearchSuggestions ::
  "(string \<Rightarrow> error + string list) \<Rightarrow> string \<Rightarrow> error + string list" where
  "getSearchSuggestions fetchJson query =
     (if length query < 2 then Inr [] else fetchJson query)"

section \<open>Dashboard aggregation (\<open>Dashboard.calculateLocalData\<close>)\<close>

text \<open>The counters of the fallback calculation, one definition for each \<^verbatim>\<open>const\<close>.\<close>

definition totalItems :: "item list \<Rightarrow> nat" where
  "totalItems items = length items"

definition lostItems :: "item list \<Rightarrow> nat" where
  "lostItems items = length (filter (\<lambda>i. type i = ''lost'') items)"

definition foundItems :: "item list \<Rightarrow> nat" where
  "foundItems items = length (filter (\<lambda>i. type i = ''found'') items)"

definition activeItems :: "item list \<Rightarrow> nat" where
  "activeItems items = length (filter (\<lambda>i. status i = ''active'') items)"

definition claimedItems :: "item list \<Rightarrow> nat" where
  "claimedItems items = length (filter (\<lambda>i. status i = ''claimed'') items)"

definition pendingItems :: "item list \<Rightarrow> nat" where
  "pendingItems items = length (filter (\<lambda>i. status i = ''pending'') items)"

text \<open>
  \<^verbatim>\<open>
  const claimRate = totalItems > 0 ? ((claimedItems / totalItems) * 100).toFixed(1) : 0;
  ... claimRate: parseFloat(claimRate)
  \<close>
  A JavaScript number is a finite value, \<open>NaN\<close> or an infinity. Division never
  throws: \<open>0 / 0\<close> is \<open>NaN\<close> and \<open>n / 0\<close> is \<open>Infinity\<close> for positive \<open>n\<close>. Finite
  doubles are idealised as rationals; \<open>toFixed1\<close> is the number that
  \<^verbatim>\<open>parseFloat(x.toFixed(1))\<close> denotes (\<open>x\<close> rounded to one decimal, \<open>NaN\<close> and
  \<open>Infinity\<close> printed and read back as themselves). Only non-negative operands occur.
\<close>

datatype jsnumber = Num rat | NaN | Infinity

fun jsdiv :: "jsnumber \<Rightarrow> jsnumber \<Rightarrow> jsnumber" where
  "jsdiv (Num a) (Num b) =
     (if b = 0 then (if a = 0 then NaN else Infinity) else Num (a / b))"
| "jsdiv NaN _ = NaN"
| "jsdiv _ NaN = NaN"
| "jsdiv Infinity Infinity = NaN"
| "jsdiv Infinity (Num b) = Infinity"
| "jsdiv (Num a) Infinity = Num 0"

fun jsmul :: "jsnumber \<Rightarrow> jsnumber \<Rightarrow> jsnumber" where
  "jsmul (Num a) (Num b) = Num (a * b)"
| "jsmul NaN _ = NaN"
| "jsmul _ NaN = NaN"
| "jsmul Infinity Infinity = Infinity"
| "jsmul Infinity (Num b) = (if b = 0 then NaN else Infinity)"
| "jsmul (Num a) Infinity = (if a = 0 then NaN else Infinity)"

fun toFixed1 :: "jsnumber \<Rightarrow> jsnumber" where
  "toFixed1 (Num r) = Num (of_int \<lfloor>r * 10 + 1 / 2\<rfloor> / 10)"
| "toFixed1 NaN = NaN"
| "toFixed1 Infinity = Infinity"

definition claimRate :: "item list \<Rightarrow> jsnumber" where
  "claimRate items =
     (if totalItems items > 0
      then toFixed1 (jsmul (jsdiv (Num (of_nat (claimedItems items)))
                                  (Num (of_nat (totalItems items)))) (Num 100))
      else Num 0)"

subsection \<open>Top categories and locations\<close>

text \<open>
  \<^verbatim>\<open>
  const categoryCount: Record<string, number> = {};
  items.forEach(item => {
    categoryCount[item.category] = (categoryCount[item.category] || 0) + 1;
  });
  const topCategories = Object.entries(categoryCount)
    .sort((a, b) => b[1] - a[1])
    .slice(0, 10)
    .map(([name, count]) => ({ name, count }));
  \<close>
  \<open>categoryCount\<close> is a plain object used as a counter. Its own properties are modelled
  as an association list in the order of their creation; assigning to an existing key
  keeps the key's place, assigning to a new key appends it (\<open>AList.update\<close>). Two
  features of objects show through:
  \<^item> Reading a key that is not an own property falls through to \<open>Object.prototype\<close>. For
    the names of its members the value read is a function or an object, not a number,
    and the counter stops being a number. \<open>readCount\<close> returns \<open>None\<close> there, and the
    aggregation is \<open>None\<close> as a whole: such inputs are outside the numeric model.
  \<^item> \<open>Object.entries\<close> lists the keys that are array indices (canonical decimal
    numerals below \<open>2^32 - 1\<close>) first, in ascending numeric order, and only then the
    other keys in the order of their creation.
\<close>

definition protoMembers :: "string list" where
  "protoMembers =
     [''constructor'', ''hasOwnProperty'', ''isPrototypeOf'', ''propertyIsEnumerable'',
      ''toLocaleString'', ''toString'', ''valueOf'', ''__proto__'', ''__defineGetter__'',
      ''__defineSetter__'', ''__lookupGetter__'', ''__lookupSetter__'']"

text \<open>\<^verbatim>\<open>obj[key] || 0\<close>, where the own values are counts.\<close>

definition readCount :: "(string \<times> nat) list \<Rightarrow> string \<Rightarrow> nat option" where
  "readCount obj key =
     (case map_of obj key of
        Some n \<Rightarrow> Some n
      | None \<Rightarrow> if key \<in> set protoMembers then None else Some 0)"

text \<open>The \<open>forEach\<close> loop over the field values of the items.\<close>

fun countInto :: "(string \<times> nat) list \<Rightarrow> string list \<Rightarrow> (string \<times> nat) list option" where
  "countInto obj [] = Some obj"
| "countInto obj (key # keys) =
     (case readCount obj key of
        None \<Rightarrow> None
      | Some n \<Rightarrow> countInto (AList.update key (n + 1) obj) keys)"

definition digitValue :: "char \<Rightarrow> nat" where
  "digitValue c = of_char c - 48"

definition indexValue :: "string \<Rightarrow> nat" where
  "indexValue s = foldl (\<lambda>a c. 10 * a + digitValue c) 0 s"

definition isArrayIndex :: "string \<Rightarrow> bool" where
  "isArrayIndex s =
     (s \<noteq> [] \<and> list_all isDigit s \<and> (hd s = CHR ''0'' \<longrightarrow> s = ''0'')
      \<and> indexValue s < 4294967295)"

definition Object_entries :: "(string \<times> nat) list \<Rightarrow> (string \<times> nat) list" where
  "Object_entries obj =
     sort_key (\<lambda>p. indexValue (fst p)) (filter (\<lambda>p. isArrayIndex (fst p)) obj)
     @ filter (\<lambda>p. \<not> isArrayIndex (fst p)) obj"

text \<open>The comparator \<^verbatim>\<open>(a, b) => b[1] - a[1]\<close> and the pipeline after the loop; an
  entry \<^verbatim>\<open>{ name, count }\<close> is the pair of the two.\<close>

definition byCountDesc :: "string \<times> nat \<Rightarrow> string \<times> nat \<Rightarrow> int option" where
  "byCountDesc a b = Some (int (snd b) - int (snd a))"

definition topTen :: "(string \<times> nat) list \<Rightarrow> (string \<times> nat) list" where
  "topTen obj = take 10 (sortBy byCountDesc (Object_entries obj))"

definition topCategories :: "item list \<Rightarrow> (string \<times> nat) list option" where
  "topCategories items = map_option topTen (countInto [] (map category items))"

definition topLocations :: "item list \<Rightarrow> (string \<times> nat) list option" where
  "topLocations items = map_option topTen (countInto [] (map location items))"

text \<open>
  The ranking as the specification words it, for comparison: the distinct values in
  the order in which they are first met, each with the number of its occurrences,
  sorted by descending count with ties left in that order (\<open>sort_key\<close> is stable), cut
  to ten entries.
\<close>

fun firstSeen :: "'a list \<Rightarrow> 'a list" where
  "firstSeen [] = []"
| "firstSeen (x # xs) = x # filter (\<lambda>y. y \<noteq> x) (firstSeen xs)"

definition frequencyTable :: "string list \<Rightarrow> (string \<times> nat) list" where
  "frequencyTable values = map (\<lambda>v. (v, count_list values v)) (firstSeen values)"

definition frequencyRanking :: "string list \<Rightarrow> (string \<times> nat) list" where
  "frequencyRanking values = take 10 (sort_key (\<lambda>p. - int (snd p)) (frequencyTable values))"

text \<open>A field value that is an ordinary key of a counter object.\<close>

definition ordinaryKey :: "string \<Rightarrow> bool" where
  "ordinaryKey s = (\<not> isArrayIndex s \<and> s \<notin> set protoMembers)"

section \<open>Report form validation (\<open>ReportItemForm.validateForm\<close>)\<close>

text \<open>The form state; its fields carry the prefix \<open>form\<close>.\<close>

record formData =
  form_title :: string
  form_description :: string
  form_category :: string
  form_location :: string
  form_date :: string
  form_type :: string
  form_status :: string
  form_contactName :: string
  form_contactInfo :: string
  form_image :: string

text \<open>The regular expression \<^verbatim>\<open>/^\d{10}$/\<close>: the whole string is ten ASCII digits
  (without the \<open>m\<close> flag \<open>$\<close> matches at the end of the input only).\<close>

definition matchesTenDigits :: "string \<Rightarrow> bool" where
  "matchesTenDigits s = (length s = 10 \<and> list_all isDigit s)"

text \<open>
  \<open>newErrors\<close> is the record of messages, here an association list in the order the
  source fills it; \<open>validateForm\<close> returns whether it has no key.
  \<^verbatim>\<open>
  if (!formData.title.trim()) { newErrors.title = 'Title is required'; }
  if (!formData.description.trim()) { newErrors.description = 'Description is required'; }
  if (!formData.contactName.trim()) { newErrors.contactName = 'Contact name is required'; }
  if (!formData.contactInfo.trim()) {
    newErrors.contactInfo = 'Contact info is required';
  } else if (!formData.contactInfo.includes('@') && !formData.contactInfo.match(/^\d{10}$/)) {
    newErrors.contactInfo = 'Please provide a valid email or 10-digit phone number';
  }
  return Object.keys(newErrors).length === 0;
  \<close>
\<close>

definition newErrors :: "formData \<Rightarrow> (string \<times> string) list" where
  "newErrors fd =
     (if trim (form_title fd) = [] then [(''title'', ''Title is required'')] else [])
   @ (if trim (form_description fd) = []
      then [(''description'', ''Description is required'')] else [])
   @ (if trim (form_contactName fd) = []
      then [(''contactName'', ''Contact name is required'')] else [])
   @ (if trim (form_contactInfo fd) = []
      then [(''contactInfo'', ''Contact info is required'')]
      else if \<not> includesStr (form_contactInfo fd) ''@''
              \<and> \<not> matchesTenDigits (form_contactInfo fd)
      then [(''contactInfo'', ''Please provide a valid email or 10-digit phone number'')]
      else [])"

definition validateForm :: "formData \<Rightarrow> bool" where
  "validateForm fd = (length (map fst (newErrors fd)) = 0)"

text \<open>
  What the specification calls an email-shaped pattern is not spelled out there. The
  least that any reading of it asks, for comparison with the source's test: something
  stands before the first \<open>@\<close>, something stands after it, and the string holds no
  white space.
\<close>

definition emailShaped :: "string \<Rightarrow> bool" where
  "emailShaped s =
     (takeWhile (\<lambda>c. c \<noteq> CHR ''@'') s \<noteq> []
      \<and> length (dropWhile (\<lambda>c. c \<noteq> CHR ''@'') s) > 1
      \<and> \<not> list_ex isWhiteSpace s)"

definition report :: formData where
  "report = \<lparr>form_title = ''Blue Backpack'', form_description = ''Left in the hall'',
     form_category = ''Electronics'', form_location = ''Library - 2nd Floor'',
     form_date = ''2024-01-15'', form_type = ''found'', form_status = ''active'',
     form_contactName = ''Alice'', form_contactInfo = ''alice@campus.edu'', form_image = []\<rparr>"

section \<open>The local item store (\<^verbatim>\<open>src/utils/storage.ts\<close>)\<close>

text \<open>
  The state the module works on: whether a \<open>window\<close> exists, the module-level array
  \<open>mockItems\<close> (imported from \<^verbatim>\<open>mockData\<close>, which is not among the sources: it is a
  component of the state), and what \<open>localStorage\<close> holds under \<open>STORAGE_KEY\<close>. The
  stored text is always written by \<open>JSON.stringify\<close> of an item list and read back by
  \<open>JSON.parse\<close>; it is modelled as the list it encodes, \<open>None\<close> when the key is absent.

  \<open>getItems\<close> returns either the array \<open>mockItems\<close> itself or a fresh array parsed from
  the stored text. The difference matters: \<open>addItem\<close> and \<open>updateItem\<close> change the
  array they got in place, and when that array is \<open>mockItems\<close> the module-level array
  changes with it.
\<close>

record store =
  hasWindow :: bool
  mockItems :: "item list"
  stored :: "item list option"

datatype itemsRef = MockArray | ParsedArray "item list"

fun arrayOf :: "store \<Rightarrow> itemsRef \<Rightarrow> item list" where
  "arrayOf s MockArray = mockItems s"
| "arrayOf s (ParsedArray xs) = xs"

text \<open>Writing through a reference: only the shared array is part of the state.\<close>

fun writeArray :: "itemsRef \<Rightarrow> item list \<Rightarrow> store \<Rightarrow> store" where
  "writeArray MockArray xs s = s\<lparr>mockItems := xs\<rparr>"
| "writeArray (ParsedArray _) xs s = s"

text \<open>
  \<^verbatim>\<open>
  export const getItems = (): Item[] => {
    if (typeof window === 'undefined') return mockItems;
    const stored = localStorage.getItem(STORAGE_KEY);
    if (!stored) {
      localStorage.setItem(STORAGE_KEY, JSON.stringify(mockItems));
      return mockItems;
    }
    return JSON.parse(stored);
  };
  export const saveItems = (items: Item[]): void => {
    if (typeof window !== 'undefined') {
      localStorage.setItem(STORAGE_KEY, JSON.stringify(items));
    }
  };
  \<close>
\<close>

definition getItems :: "store \<Rightarrow> itemsRef \<times> store" where
  "getItems s =
     (if \<not> hasWindow s then (MockArray, s)
      else case stored s of
             None \<Rightarrow> (MockArray, s\<lparr>stored := Some (mockItems s)\<rparr>)
           | Some xs \<Rightarrow> (ParsedArray xs, s))"

definition saveItems :: "item list \<Rightarrow> store \<Rightarrow> store" where
  "saveItems items s = (if hasWindow s then s\<lparr>stored := Some items\<rparr> else s)"

text \<open>The item list a caller of \<open>getItems\<close> sees in state \<open>s\<close>.\<close>

definition currentItems :: "store \<Rightarrow> item list" where
  "currentItems s = (let (r, s1) = getItems s in arrayOf s1 r)"

text \<open>\<^verbatim>\<open>Date.now().toString()\<close>: the decimal numeral of a non-negative integer.\<close>

fun natToString :: "nat \<Rightarrow> string" where
  "natToString n =
     (if n < 10 then [''0123456789'' ! n]
      else natToString (n div 10) @ [''0123456789'' ! (n mod 10)])"

declare natToString.simps [simp del]

text \<open>
  \<^verbatim>\<open>
  export const addItem = (item: Omit<Item, 'id' | 'createdAt'>): Item => {
    const items = getItems();
    const newItem: Item = {
      ...item,
      id: Date.now().toString(),
      createdAt: new Date().toISOString(),
    };
    items.unshift(newItem);
    saveItems(items);
    return newItem;
  };
  \<close>
  The two clock readings are inputs: \<open>now\<close> is \<open>Date.now()\<close> in milliseconds and \<open>isoNow\<close>
  is \<open>new Date().toISOString()\<close>. The argument is an item whose \<open>id\<close> and \<open>createdAt\<close>,
  if it has any, are overwritten, as the object spread does.
\<close>

definition addItem :: "item \<Rightarrow> nat \<Rightarrow> string \<Rightarrow> store \<Rightarrow> item \<times> store" where
  "addItem item now isoNow s =
     (let (r, s1) = getItems s;
          newItem = item\<lparr>item_id := natToString now, createdAt := isoNow\<rparr>;
          items = newItem # arrayOf s1 r
      in (newItem, saveItems items (writeArray r items s1)))"

text \<open>\<open>Partial<Item>\<close>: every field may be missing.\<close>

record itemUpdates =
  upd_id :: "string option"
  upd_title :: "string option"
  upd_description :: "string option"
  upd_category :: "string option"
  upd_location :: "string option"
  upd_date :: "string option"
  upd_status :: "string option"
  upd_type :: "string option"
  upd_image :: "string option"
  upd_contactName :: "string option"
  upd_contactInfo :: "string option"
  upd_createdAt :: "string option"

definition spread :: "'a \<Rightarrow> 'a option \<Rightarrow> 'a" where
  "spread old new = (case new of None \<Rightarrow> old | Some v \<Rightarrow> v)"

text \<open>\<^verbatim>\<open>{ ...items[index], ...updates }\<close>: a field of \<open>updates\<close> wins where it is present.\<close>

definition applyUpdates :: "item \<Rightarrow> itemUpdates \<Rightarrow> item" where
  "applyUpdates it u =
     \<lparr>item_id = spread (item_id it) (upd_id u),
      title = spread (title it) (upd_title u),
      description = spread (description it) (upd_description u),
      category = spread (category it) (upd_category u),
      location = spread (location it) (upd_location u),
      date = spread (date it) (upd_date u),
      status = spread (status it) (upd_status u),
      type = spread (type it) (upd_type u),
      image = (case upd_image u of None \<Rightarrow> image it | Some v \<Rightarrow> Some v),
      contactName = spread (contactName it) (upd_contactName u),
      contactInfo = spread (contactInfo it) (upd_contactInfo u),
      createdAt = spread (createdAt it) (upd_createdAt u)\<rparr>"

text \<open>\<^verbatim>\<open>findIndex\<close>: the first position that satisfies the test, \<open>None\<close> for the
  source's \<open>-1\<close>.\<close>

fun findIndex :: "('a \<Rightarrow> bool) \<Rightarrow> 'a list \<Rightarrow> nat option" where
  "findIndex P [] = None"
| "findIndex P (x # xs) = (if P x then Some 0 else map_option Suc (findIndex P xs))"

text \<open>
  \<^verbatim>\<open>
  export const updateItem = (id: string, updates: Partial<Item>): void => {
    const items = getItems();
    const index = items.findIndex(item => item.id === id);
    if (index !== -1) {
      items[index] = { ...items[index], ...updates };
      saveItems(items);
    }
  };
  export const deleteItem = (id: string): void => {
    const items = getItems();
    const filtered = items.filter(item => item.id !== id);
    saveItems(filtered);
  };
  \<close>
  Both return \<open>void\<close> and contain no \<open>throw\<close>: what the caller gets is \<open>Inr ()\<close> on
  every path, written out so that the absence of an error can be stated.
\<close>

definition updateItem :: "string \<Rightarrow> itemUpdates \<Rightarrow> store \<Rightarrow> (error + unit) \<times> store" where
  "updateItem itemId updates s =
     (let (r, s1) = getItems s; items = arrayOf s1 r in
      case findIndex (\<lambda>item. item_id item = itemId) items of
        None \<Rightarrow> (Inr (), s1)
      | Some index \<Rightarrow>
          (let items' = items[index := applyUpdates (items ! index) updates]
           in (Inr (), saveItems items' (writeArray r items' s1))))"

definition deleteItem :: "string \<Rightarrow> store \<Rightarrow> (error + unit) \<times> store" where
  "deleteItem itemId s =
     (let (r, s1) = getItems s;
          filtered = filter (\<lambda>item. item_id item \<noteq> itemId) (arrayOf s1 r)
      in (Inr (), saveItems filtered s1))"

text \<open>An update that touches no field, and a browser whose storage holds one item.\<close>

definition noUpdates :: itemUpdates where
  "noUpdates = \<lparr>upd_id = None, upd_title = None, upd_description = None,
     upd_category = None, upd_location = None, upd_date = None, upd_status = None,
     upd_type = None, upd_image = None, upd_contactName = None, upd_contactInfo = None,
     upd_createdAt = None\<rparr>"

text \<open>An item used in the examples.\<close>

definition backpack :: item where
  "backpack = \<lparr>item_id = ''1'', title = ''Blue Backpack'', description = ''Left in the hall'',
     category = ''Bags'', location = ''Library'', date = ''2024-01-15'', status = ''active'',
     type = ''lost'', image = None, contactName = ''Alice'', contactInfo = ''alice@campus.edu'',
     createdAt = ''2024-01-15T10:30:00.000Z''\<rparr>"

text \<open>A browser whose storage holds one item, a browser in which nothing was ever saved,
  and the latter after two creations at the same clock reading.\<close>

definition browser :: store where
  "browser = \<lparr>hasWindow = True, mockItems = [backpack], stored = Some [backpack]\<rparr>"

definition freshBrowser :: store where
  "freshBrowser = \<lparr>hasWindow = True, mockItems = [backpack], stored = None\<rparr>"

definition keys :: item where
  "keys = backpack\<lparr>item_id := ''2'', title := ''Keys'', category := ''Keys'',
     location := ''Gym'', type := ''found''\<rparr>"

definition rucksack :: item where
  "rucksack = backpack\<lparr>item_id := ''3'', title := ''Red rucksack'',
     description := ''A BACKPACK with a red flap'', date := ''2024-01-31'',
     createdAt := ''2024-01-20T09:00:00.000Z''\<rparr>"

definition undated :: item where
  "undated = keys\<lparr>item_id := ''5'', createdAt := ''not a date''\<rparr>"

definition novel :: item where
  "novel = backpack\<lparr>item_id := ''4'', title := ''Paperback novel'', category := ''Books'',
     location := ''Cafeteria''\<rparr>"

text \<open>The time values of the dates in the examples, and the filter state in which
  \<open>ItemList\<close> starts.\<close>

definition exampleDates :: "string \<Rightarrow> int option" where
  "exampleDates = map_of
     [(''2024-01-10'', 1704844800000), (''2024-01-15'', 1705276800000),
      (''2024-01-31'', 1706659200000),
      (''2024-01-15T10:30:00.000Z'', 1705314600000),
      (''2024-01-20T09:00:00.000Z'', 1705741200000)]"

definition noFilters :: FilterOptions where
  "noFilters = \<lparr>search = [], fcategory = ''All'', flocation = ''All'', ftype = ''all'',
     fstatus = ''all'', dateFrom = [], dateTo = []\<rparr>"

definition twoItems :: store where
  "twoItems = \<lparr>hasWindow = True, mockItems = [backpack], stored = Some [backpack, keys]\<rparr>"

definition afterTwoAdds :: store where
  "afterTwoAdds =
     snd (addItem backpack 1700000000000 ''2023-11-14T22:13:20.000Z''
       (snd (addItem backpack 1700000000000 ''2023-11-14T22:13:20.000Z'' freshBrowser)))"

section \<open>Properties of the code\<close>

subsection \<open>Suggestions\<close>

text \<open>
  Claim C2. For every query of fewer than two characters, the empty query included, and
  whatever the back end would answer (that is, for every item set), the suggestion
  operation returns the empty sequence, and does so without an error.
\<close>

theorem suggestions_short_query:
  "length query < 2 \<Longrightarrow> getSearchSuggestions fetchJson query = Inr []"
  by (simp add: getSearchSuggestions_def)

theorem suggestions_short_query_witness:
  "length ''b'' < 2
   \<and> getSearchSuggestions (\<lambda>q. Inr [''Blue Backpack'', ''Books'']) ''b'' = Inr []
   \<and> getSearchSuggestions (\<lambda>q. Inr [''Blue Backpack'', ''Books'']) ''bo''
       = Inr [''Blue Backpack'', ''Books'']"
  using suggestions_short_query [of "''b''" "\<lambda>q. Inr [''Blue Backpack'', ''Books'']"]
  by (simp add: getSearchSuggestions_def)

subsection \<open>Dashboard totals\<close>

lemma length_filter_two:
  "\<forall>x \<in> set xs. P x \<or> Q x \<Longrightarrow> \<forall>x \<in> set xs. \<not> (P x \<and> Q x) \<Longrightarrow>
   length (filter P xs) + length (filter Q xs) = length xs"
  by (induction xs) auto

lemma length_filter_three:
  "\<forall>x \<in> set xs. P x \<or> Q x \<or> R x \<Longrightarrow>
   \<forall>x \<in> set xs. \<not> (P x \<and> Q x) \<and> \<not> (P x \<and> R x) \<and> \<not> (Q x \<and> R x) \<Longrightarrow>
   length (filter P xs) + length (filter Q xs) + length (filter R xs) = length xs"
  by (induction xs) auto

text \<open>
  Claim C3. For every item list whose \<open>type\<close> fields are \<open>lost\<close> or \<open>found\<close> and whose
  \<open>status\<close> fields are \<open>active\<close>, \<open>claimed\<close> or \<open>pending\<close>, the lost and found counts
  add up to the total, and so do the active, claimed and pending counts.
\<close>

theorem dashboard_totals_consistent:
  assumes "\<forall>i \<in> set items. type i \<in> {''lost'', ''found''}"
    and "\<forall>i \<in> set items. status i \<in> {''active'', ''claimed'', ''pending''}"
  shows "lostItems items + foundItems items = totalItems items
       \<and> activeItems items + claimedItems items + pendingItems items = totalItems items"
proof -
  have "length (filter (\<lambda>i. type i = ''lost'') items)
        + length (filter (\<lambda>i. type i = ''found'') items) = length items"
    using assms(1) by (intro length_filter_two) auto
  moreover have "length (filter (\<lambda>i. status i = ''active'') items)
        + length (filter (\<lambda>i. status i = ''claimed'') items)
        + length (filter (\<lambda>i. status i = ''pending'') items) = length items"
    using assms(2) by (intro length_filter_three) auto
  ultimately show ?thesis
    by (simp add: lostItems_def foundItems_def activeItems_def claimedItems_def
        pendingItems_def totalItems_def)
qed

theorem dashboard_totals_consistent_witness:
  "list_all (\<lambda>i. type i \<in> {''lost'', ''found''}) [backpack, keys\<lparr>status := ''claimed''\<rparr>]
   \<and> list_all (\<lambda>i. status i \<in> {''active'', ''claimed'', ''pending''})
         [backpack, keys\<lparr>status := ''claimed''\<rparr>]
   \<and> totalItems [backpack, keys\<lparr>status := ''claimed''\<rparr>] = 2
   \<and> lostItems [backpack, keys\<lparr>status := ''claimed''\<rparr>]
     + foundItems [backpack, keys\<lparr>status := ''claimed''\<rparr>] = 2
   \<and> activeItems [backpack, keys\<lparr>status := ''claimed''\<rparr>]
     + claimedItems [backpack, keys\<lparr>status := ''claimed''\<rparr>]
     + pendingItems [backpack, keys\<lparr>status := ''claimed''\<rparr>] = 2"
  using dashboard_totals_consistent [of "[backpack, keys\<lparr>status := ''claimed''\<rparr>]"]
  by (simp add: backpack_def keys_def totalItems_def)

subsection \<open>Claim rate\<close>

text \<open>
  Claim C4. For the empty item list the claim rate is 0, and for every item list the
  claim rate is a finite number: the division is evaluated only with a non-zero total, so
  neither \<open>NaN\<close> nor \<open>Infinity\<close>, the results of a division by zero, is ever produced.
\<close>

theorem claimRate_guarded:
  "claimRate [] = Num 0 \<and> (\<exists>r. claimRate items = Num r)"
proof
  show "claimRate [] = Num 0"
    by (simp add: claimRate_def totalItems_def)
  show "\<exists>r. claimRate items = Num r"
  proof (cases "totalItems items > 0")
    case True
    then have nz: "(of_nat (totalItems items) :: rat) \<noteq> 0"
      by simp
    have "claimRate items =
        toFixed1 (jsmul (jsdiv (Num (of_nat (claimedItems items)))
                               (Num (of_nat (totalItems items)))) (Num 100))"
      using True by (simp only: claimRate_def if_True)
    also have "\<dots> =
        toFixed1 (jsmul (Num (of_nat (claimedItems items) / of_nat (totalItems items)))
                        (Num 100))"
      using nz by (simp only: jsdiv.simps if_False)
    also have "\<dots> =
        toFixed1 (Num (of_nat (claimedItems items) / of_nat (totalItems items) * 100))"
      by (simp only: jsmul.simps)
    also have "\<dots> =
        Num (of_int \<lfloor>(of_nat (claimedItems items) :: rat) / of_nat (totalItems items)
                        * 100 * 10 + 1 / 2\<rfloor> / 10)"
      by (simp only: toFixed1.simps)
    finally show ?thesis by (rule exI)
  next
    case False
    then show ?thesis by (simp add: claimRate_def)
  qed
qed

theorem claimRate_guarded_witness:
  "claimRate [] = Num 0
   \<and> claimRate [backpack, backpack\<lparr>status := ''claimed''\<rparr>, backpack] = Num (333 / 10)"
proof -
  have "claimRate [] = Num 0"
    using claimRate_guarded [of "[]"] by blast
  moreover have
    "claimRate [backpack, backpack\<lparr>status := ''claimed''\<rparr>, backpack] = Num (333 / 10)"
    by code_simp
  ultimately show ?thesis by blast
qed

subsection \<open>Strings\<close>

lemma includesStr_sublist: "includesStr s q \<longleftrightarrow> sublist q s"
  by (induction s) (auto simp: sublist_Cons_right)

lemma includesStr_single: "includesStr s [c] \<longleftrightarrow> c \<in> set s"
  by (induction s) auto

lemma trim_Nil_iff: "trim s = [] \<longleftrightarrow> (\<forall>c \<in> set s. isWhiteSpace c)"
proof
  assume t: "trim s = []"
  have "dropWhile isWhiteSpace s = []"
  proof (rule ccontr)
    assume ne: "dropWhile isWhiteSpace s \<noteq> []"
    then have "\<not> isWhiteSpace (hd (dropWhile isWhiteSpace s))"
      by (rule hd_dropWhile)
    moreover have "hd (dropWhile isWhiteSpace s) \<in> set (rev (dropWhile isWhiteSpace s))"
      using ne by simp
    moreover from t have "\<forall>c \<in> set (rev (dropWhile isWhiteSpace s)). isWhiteSpace c"
      unfolding trim_def rev_is_Nil_conv dropWhile_eq_Nil_conv .
    ultimately show False by blast
  qed
  then show "\<forall>c \<in> set s. isWhiteSpace c"
    by (simp add: dropWhile_eq_Nil_conv)
next
  assume "\<forall>c \<in> set s. isWhiteSpace c"
  then have d: "dropWhile isWhiteSpace s = []"
    by simp
  show "trim s = []"
    unfolding trim_def d by simp
qed

lemma at_sign_not_white: "\<not> isWhiteSpace CHR ''@''"
  by (simp add: isWhiteSpace_def)

lemma digit_not_white: "isDigit c \<Longrightarrow> \<not> isWhiteSpace c"
  by (auto simp: isDigit_def isWhiteSpace_def)

subsection \<open>Report form\<close>

text \<open>
  Claim C6, as the source has it. The claim rejects every contact info that is neither
  email-shaped nor exactly ten digits. The source's test for an email is only that the
  string contains the character \<open>@\<close>: the contact infos \<open>@\<close> and \<open>call me @ noon\<close> are
  neither email-shaped nor ten digits, and the form is accepted with each of them.
\<close>

theorem at_sign_alone_is_accepted:
  "validateForm (report\<lparr>form_contactInfo := ''@''\<rparr>)
   \<and> \<not> emailShaped ''@'' \<and> \<not> matchesTenDigits ''@''
   \<and> validateForm (report\<lparr>form_contactInfo := ''call me @ noon''\<rparr>)
   \<and> \<not> emailShaped ''call me @ noon'' \<and> \<not> matchesTenDigits ''call me @ noon''"
  by (simp add: validateForm_def newErrors_def report_def trim_def isWhiteSpace_def
      emailShaped_def matchesTenDigits_def)

text \<open>
  Claim C6, amended. The validation accepts a submission if and only if title,
  description and contact name are non-empty after trimming and the contact info is
  non-empty and contains the character \<open>@\<close> or is exactly ten digits. The source tests
  the contact info for emptiness after trimming; with the second condition that is the
  same as being non-empty, since white space is neither \<open>@\<close> nor a digit.
\<close>

theorem validateForm_iff:
  "validateForm fd \<longleftrightarrow>
     trim (form_title fd) \<noteq> [] \<and> trim (form_description fd) \<noteq> []
   \<and> trim (form_contactName fd) \<noteq> []
   \<and> form_contactInfo fd \<noteq> []
   \<and> (CHR ''@'' \<in> set (form_contactInfo fd)
      \<or> (length (form_contactInfo fd) = 10 \<and> (\<forall>c \<in> set (form_contactInfo fd). isDigit c)))"
proof -
  let ?c = "form_contactInfo fd"
  have shape: "trim ?c \<noteq> []"
    if "?c \<noteq> []" "CHR ''@'' \<in> set ?c \<or> (length ?c = 10 \<and> (\<forall>c \<in> set ?c. isDigit c))"
  proof -
    from that obtain x where "x \<in> set ?c" "\<not> isWhiteSpace x"
      using at_sign_not_white digit_not_white by (metis last_in_set)
    then show ?thesis by (auto simp: trim_Nil_iff)
  qed
  have empty: "trim ?c = []" if "?c = []"
    using that by (simp add: trim_def)
  show ?thesis
    using shape empty
    by (auto simp: validateForm_def newErrors_def includesStr_single matchesTenDigits_def
        list_all_iff)
qed

theorem validateForm_iff_witness:
  "validateForm report
   \<and> validateForm (report\<lparr>form_contactInfo := ''0123456789''\<rparr>)
   \<and> \<not> validateForm (report\<lparr>form_contactInfo := ''12345''\<rparr>)
   \<and> \<not> validateForm (report\<lparr>form_title := [CHR '' '', CHR '' '']\<rparr>)"
  using validateForm_iff [of report]
    validateForm_iff [of "report\<lparr>form_contactInfo := ''0123456789''\<rparr>"]
    validateForm_iff [of "report\<lparr>form_contactInfo := ''12345''\<rparr>"]
    validateForm_iff [of "report\<lparr>form_title := [CHR '' '', CHR '' '']\<rparr>"]
  by (simp add: report_def trim_def isWhiteSpace_def isDigit_def)

subsection \<open>The local store: reading\<close>

lemma findIndex_None_iff: "findIndex P xs = None \<longleftrightarrow> (\<forall>x \<in> set xs. \<not> P x)"
  by (induction xs) auto

lemma findIndex_Some:
  "findIndex P xs = Some k \<Longrightarrow> k < length xs \<and> P (xs ! k) \<and> (\<forall>j < k. \<not> P (xs ! j))"
proof (induction xs arbitrary: k)
  case Nil
  then show ?case by simp
next
  case (Cons x xs)
  show ?case
  proof (cases "P x")
    case True
    with Cons.prems show ?thesis by simp
  next
    case False
    with Cons.prems obtain k' where k': "findIndex P xs = Some k'" "k = Suc k'"
      by auto
    from Cons.IH [OF k'(1)] False k'(2) show ?thesis
      by (auto simp: less_Suc_eq_0_disj)
  qed
qed

lemma getItems_cases:
  "getItems s = (r, s1) \<Longrightarrow>
     arrayOf s1 r = currentItems s \<and> hasWindow s1 = hasWindow s \<and> mockItems s1 = mockItems s
     \<and> (hasWindow s \<longrightarrow> stored s1 = Some (currentItems s))
     \<and> (r = MockArray \<longrightarrow> currentItems s = mockItems s)"
  by (auto simp: getItems_def currentItems_def split: if_splits option.splits)

lemma currentItems_getItems: "currentItems (snd (getItems s)) = currentItems s"
  by (auto simp: getItems_def currentItems_def split: if_splits option.splits)

lemma saveItems_same:
  "hasWindow s \<longrightarrow> stored s = Some xs \<Longrightarrow> saveItems xs s = s"
  by (auto simp: saveItems_def)

lemma currentItems_written:
  "getItems s = (r, s1) \<Longrightarrow> currentItems (saveItems xs (writeArray r xs s1)) = xs"
  by (auto simp: getItems_def currentItems_def saveItems_def split: if_splits option.splits)

lemma browser_items: "currentItems browser = [backpack]" "snd (getItems browser) = browser"
  by (simp_all add: currentItems_def getItems_def browser_def)

lemma freshBrowser_items: "currentItems freshBrowser = [backpack]"
  by (simp add: currentItems_def getItems_def freshBrowser_def)

text \<open>
  Claim C10. In a browser whose storage key is absent, \<open>getItems\<close> returns the mock data
  set and leaves it stored under the key; and in every state a second \<open>getItems\<close> right
  after the first returns the same item list as the first.
\<close>

theorem getItems_initialises:
  "(hasWindow s \<and> stored s = None \<longrightarrow>
      currentItems s = mockItems s \<and> stored (snd (getItems s)) = Some (mockItems s))
   \<and> currentItems (snd (getItems s)) = currentItems s"
  by (auto simp: getItems_def currentItems_def split: option.splits)

theorem getItems_initialises_witness:
  "hasWindow freshBrowser \<and> stored freshBrowser = None
   \<and> currentItems freshBrowser = [backpack]
   \<and> stored (snd (getItems freshBrowser)) = Some [backpack]
   \<and> currentItems (snd (getItems freshBrowser)) = [backpack]"
  using getItems_initialises [of freshBrowser]
  by (simp add: freshBrowser_def)

subsection \<open>The local store: update and delete\<close>

lemma currentItems_updateItem:
  "currentItems (snd (updateItem itemId u s)) =
     (case findIndex (\<lambda>item. item_id item = itemId) (currentItems s) of
        None \<Rightarrow> currentItems s
      | Some k \<Rightarrow> (currentItems s)[k := applyUpdates (currentItems s ! k) u])"
proof -
  obtain r s1 where g: "getItems s = (r, s1)"
    by (cases "getItems s")
  have a: "arrayOf s1 r = currentItems s"
    using getItems_cases [OF g] by simp
  have c: "currentItems s1 = currentItems s"
    using currentItems_getItems [of s] g by simp
  show ?thesis
    by (simp add: updateItem_def g a c Let_def currentItems_written [OF g] split: option.splits)
qed

text \<open>
  Claim C7, as the source has it. The claim says that update and delete of an id that is
  not in the store report a not-found error. They do not: both return normally.
\<close>

theorem missing_id_no_error:
  "''404'' \<notin> item_id ` set (currentItems browser)
   \<and> fst (updateItem ''404'' (noUpdates\<lparr>upd_status := Some ''claimed''\<rparr>) browser) = Inr ()
   \<and> fst (deleteItem ''404'' browser) = Inr ()"
  by (simp add: browser_items backpack_def updateItem_def deleteItem_def Let_def
      split: prod.splits option.splits)

text \<open>
  Claim C7, amended. For every store state and every id that no item of the store has,
  update and delete return normally, without an error, and leave the state exactly as a
  plain read leaves it: the item list of the store and the mock data set are unchanged.
\<close>

theorem missing_id_silent:
  assumes "itemId \<notin> item_id ` set (currentItems s)"
  shows "updateItem itemId updates s = (Inr (), snd (getItems s))
       \<and> deleteItem itemId s = (Inr (), snd (getItems s))
       \<and> currentItems (snd (getItems s)) = currentItems s
       \<and> mockItems (snd (getItems s)) = mockItems s"
proof -
  obtain r s1 where g: "getItems s = (r, s1)"
    by (cases "getItems s")
  note c = getItems_cases [OF g]
  have none: "findIndex (\<lambda>item. item_id item = itemId) (arrayOf s1 r) = None"
    using assms c by (auto simp: findIndex_None_iff)
  have same: "filter (\<lambda>item. item_id item \<noteq> itemId) (arrayOf s1 r) = arrayOf s1 r"
    using assms c by (auto simp: filter_id_conv)
  have "updateItem itemId updates s = (Inr (), s1)"
    by (simp add: updateItem_def g none)
  moreover have "deleteItem itemId s = (Inr (), s1)"
  proof -
    have "saveItems (arrayOf s1 r) s1 = s1"
      using c by (intro saveItems_same) simp
    then show ?thesis
      by (simp add: deleteItem_def g same)
  qed
  ultimately show ?thesis
    using g c currentItems_getItems [of s] by simp
qed

theorem missing_id_silent_witness:
  "''404'' \<notin> item_id ` set (currentItems browser)
   \<and> updateItem ''404'' (noUpdates\<lparr>upd_status := Some ''claimed''\<rparr>) browser = (Inr (), browser)
   \<and> deleteItem ''404'' browser = (Inr (), browser)"
  using missing_id_silent [of "''404''" browser "noUpdates\<lparr>upd_status := Some ''claimed''\<rparr>"]
  by (simp add: browser_items backpack_def)

text \<open>
  Claim C9, as the source has it. The claim says that an update never changes the id or
  the \<open>createdAt\<close> of the matched item. A payload that carries them does: the spread
  copies them over.
\<close>

theorem update_overwrites_id:
  "map item_id (currentItems browser) = [''1'']
   \<and> map createdAt (currentItems browser) = [''2024-01-15T10:30:00.000Z'']
   \<and> map item_id
        (currentItems (snd (updateItem ''1''
           (noUpdates\<lparr>upd_id := Some ''2'', upd_createdAt := Some ''2030-01-01T00:00:00.000Z''\<rparr>)
           browser)))
       = [''2'']
   \<and> map createdAt
        (currentItems (snd (updateItem ''1''
           (noUpdates\<lparr>upd_id := Some ''2'', upd_createdAt := Some ''2030-01-01T00:00:00.000Z''\<rparr>)
           browser)))
       = [''2030-01-01T00:00:00.000Z'']"
  by (simp add: currentItems_updateItem browser_items backpack_def applyUpdates_def spread_def
      noUpdates_def)

text \<open>
  Claim C9, amended. For every store state, id and payload, an update keeps the number
  and the order of the items and changes at most one of them, the first whose id is the
  given one; and when the payload carries no id (no \<open>createdAt\<close>), no item's id
  (\<open>createdAt\<close>) changes.
\<close>

theorem updateItem_frame:
  "length (currentItems (snd (updateItem itemId u s))) = length (currentItems s)
   \<and> (\<forall>k < length (currentItems s).
         currentItems (snd (updateItem itemId u s)) ! k \<noteq> currentItems s ! k \<longrightarrow>
           item_id (currentItems s ! k) = itemId
           \<and> (\<forall>j < k. item_id (currentItems s ! j) \<noteq> itemId))
   \<and> (upd_id u = None \<longrightarrow>
         map item_id (currentItems (snd (updateItem itemId u s))) = map item_id (currentItems s))
   \<and> (upd_createdAt u = None \<longrightarrow>
         map createdAt (currentItems (snd (updateItem itemId u s)))
           = map createdAt (currentItems s))"
proof (cases "findIndex (\<lambda>item. item_id item = itemId) (currentItems s)")
  case None
  then show ?thesis
    by (simp add: currentItems_updateItem)
next
  case (Some i)
  note f = findIndex_Some [OF Some]
  have after: "currentItems (snd (updateItem itemId u s))
      = (currentItems s)[i := applyUpdates (currentItems s ! i) u]"
    by (simp add: currentItems_updateItem Some)
  have "\<And>k. k < length (currentItems s) \<Longrightarrow>
      (currentItems s)[i := applyUpdates (currentItems s ! i) u] ! k \<noteq> currentItems s ! k \<Longrightarrow>
      k = i"
    by (metis nth_list_update_neq)
  moreover have "upd_id u = None \<Longrightarrow>
      map item_id ((currentItems s)[i := applyUpdates (currentItems s ! i) u])
        = map item_id (currentItems s)"
    by (simp add: map_update applyUpdates_def spread_def list_update_same_conv f)
  moreover have "upd_createdAt u = None \<Longrightarrow>
      map createdAt ((currentItems s)[i := applyUpdates (currentItems s ! i) u])
        = map createdAt (currentItems s)"
    by (simp add: map_update applyUpdates_def spread_def list_update_same_conv f)
  ultimately show ?thesis
    unfolding after using f by auto
qed

theorem updateItem_frame_witness:
  "upd_id (noUpdates\<lparr>upd_status := Some ''claimed''\<rparr>) = None
   \<and> upd_createdAt (noUpdates\<lparr>upd_status := Some ''claimed''\<rparr>) = None
   \<and> currentItems twoItems = [backpack, keys]
   \<and> currentItems (snd (updateItem ''2'' (noUpdates\<lparr>upd_status := Some ''claimed''\<rparr>) twoItems))
       = [backpack, keys\<lparr>status := ''claimed''\<rparr>]
   \<and> map item_id
        (currentItems (snd (updateItem ''2'' (noUpdates\<lparr>upd_status := Some ''claimed''\<rparr>) twoItems)))
       = [''1'', ''2'']
   \<and> map createdAt
        (currentItems (snd (updateItem ''2'' (noUpdates\<lparr>upd_status := Some ''claimed''\<rparr>) twoItems)))
       = [''2024-01-15T10:30:00.000Z'', ''2024-01-15T10:30:00.000Z'']"
proof -
  have items: "currentItems twoItems = [backpack, keys]"
    by (simp add: currentItems_def getItems_def twoItems_def)
  have "currentItems (snd (updateItem ''2'' (noUpdates\<lparr>upd_status := Some ''claimed''\<rparr>) twoItems))
      = [backpack, keys\<lparr>status := ''claimed''\<rparr>]"
    by (simp add: currentItems_updateItem items backpack_def keys_def applyUpdates_def
        spread_def noUpdates_def)
  then show ?thesis
    using updateItem_frame [of "''2''" "noUpdates\<lparr>upd_status := Some ''claimed''\<rparr>" twoItems]
    by (simp add: items noUpdates_def backpack_def keys_def)
qed

subsection \<open>The local store: creation\<close>

lemma currentItems_addItem:
  "currentItems (snd (addItem item now isoNow s)) =
     item\<lparr>item_id := natToString now, createdAt := isoNow\<rparr> # currentItems s"
  by (auto simp: addItem_def getItems_def saveItems_def currentItems_def Let_def
      split: option.splits)

text \<open>A creation keeps the ids distinct when the numeral of the clock reading is not
  yet an id of the store; nothing in \<open>addItem\<close> makes it so.\<close>

lemma addItem_fresh_id_distinct:
  assumes "distinct (map item_id (currentItems s))"
    and "natToString now \<notin> item_id ` set (currentItems s)"
  shows "distinct (map item_id (currentItems (snd (addItem item now isoNow s))))"
  using assms by (simp add: currentItems_addItem)

lemma clock_reading_id: "natToString 1700000000000 = ''1700000000000''"
  by (simp add: natToString.simps)

text \<open>
  Claim C8, evaluated. Two creations at the same reading of the clock (1700000000000
  milliseconds), starting from a store whose ids are distinct, leave two items with the
  same id in the store.
\<close>

theorem addItem_same_clock_duplicate_ids:
  "distinct (map item_id (currentItems freshBrowser))
   \<and> map item_id (currentItems afterTwoAdds) = [''1700000000000'', ''1700000000000'', ''1'']
   \<and> \<not> distinct (map item_id (currentItems afterTwoAdds))"
proof -
  have "map item_id (currentItems afterTwoAdds) = [''1700000000000'', ''1700000000000'', ''1'']"
    unfolding afterTwoAdds_def currentItems_addItem freshBrowser_items clock_reading_id
    by (simp add: backpack_def)
  then show ?thesis
    by (simp add: freshBrowser_items)
qed

subsection \<open>The sort\<close>

lemma mset_insertBy: "mset (insertBy cmp x xs) = add_mset x (mset xs)"
  by (induction xs) auto

lemma mset_sortBy: "mset (sortBy cmp xs) = mset xs"
  by (induction xs) (auto simp: sortBy_def mset_insertBy)

lemma insertBy_insort_key:
  assumes "\<And>y. y \<in> set ys \<Longrightarrow> notAfter (cmp x y) \<longleftrightarrow> f x \<le> f y"
  shows "insertBy cmp x ys = insort_key f x ys"
  using assms by (induction ys) auto

text \<open>Where the comparator agrees with a key, the sort is the library's stable sort by
  that key.\<close>

lemma sortBy_sort_key:
  assumes "\<And>x y. x \<in> set xs \<Longrightarrow> y \<in> set xs \<Longrightarrow> notAfter (cmp x y) \<longleftrightarrow> f x \<le> f y"
  shows "sortBy cmp xs = sort_key f xs"
  using assms
proof (induction xs)
  case Nil
  then show ?case by (simp add: sortBy_def)
next
  case (Cons x xs)
  have ih: "sortBy cmp xs = sort_key f xs"
    using Cons.prems by (intro Cons.IH) auto
  have "insertBy cmp x (sort_key f xs) = insort_key f x (sort_key f xs)"
    using Cons.prems by (intro insertBy_insort_key) auto
  with ih show ?case
    by (simp add: sortBy_def)
qed

subsection \<open>Search\<close>

lemma matches_iff_satisfies:
  "(matchesSearch f i \<and> matchesCategory f i \<and> matchesLocation f i \<and> matchesType f i
    \<and> matchesStatus f i \<and> matchesDateFrom parse f i \<and> matchesDateTo parse f i)
   \<longleftrightarrow> satisfiesEveryFilter parse f i"
  by (auto simp: matchesSearch_def matchesCategory_def matchesLocation_def matchesType_def
      matchesStatus_def matchesDateFrom_def matchesDateTo_def satisfiesEveryFilter_def
      includesStr_sublist dateGE_def dateLE_def Let_def split: option.splits)

lemma filteredItems_satisfies:
  "filteredItems parse f items = filter (satisfiesEveryFilter parse f) items"
  by (simp add: filteredItems_def matches_iff_satisfies)

lemma newestFirst_key:
  assumes "parse (createdAt a) \<noteq> None" "parse (createdAt b) \<noteq> None"
  shows "notAfter (newestFirst parse a b)
     \<longleftrightarrow> - the (parse (createdAt a)) \<le> - the (parse (createdAt b))"
  using assms by (auto simp: notAfter_def newestFirst_def jsMinus_def)

lemmas search_eval = sortedItems_def filteredItems_def sortBy_def matchesSearch_def
  matchesCategory_def matchesLocation_def matchesType_def matchesStatus_def
  matchesDateFrom_def matchesDateTo_def toLowerCase_def toLowerChar_def exampleDates_def
  newestFirst_def jsMinus_def notAfter_def dateGE_def dateLE_def noFilters_def
  backpack_def keys_def rucksack_def

text \<open>
  Claim C1, as the source has it. The claim lets an empty value of the category filter
  impose no constraint, like the sentinel. In the source only the sentinel does: with
  every other filter absent, the sentinel \<open>All\<close> returns the item and the empty value
  returns nothing, the item's category not being the empty string. And the claim orders
  every result newest first: next to an item whose \<open>createdAt\<close> is no date the
  comparator is \<open>NaN\<close>, the sort takes the items for equal, and an older item stays
  in front of a newer one.
\<close>

theorem empty_category_is_a_constraint:
  "sortedItems exampleDates noFilters [backpack] = [backpack]
   \<and> sortedItems exampleDates (noFilters\<lparr>fcategory := []\<rparr>) [backpack] = []
   \<and> sortedItems exampleDates noFilters [backpack, undated, rucksack]
       = [backpack, undated, rucksack]
   \<and> \<not> dateGE (exampleDates (createdAt backpack)) (exampleDates (createdAt rucksack))"
  by (simp add: search_eval undated_def)

text \<open>
  Claim C1, amended. For every item list and every filter setting, the search returns
  exactly the items (each as often as the list has it) that satisfy every filter: the
  query is a case-insensitive substring of the title, the description, the location or
  the contact name; category and location are unconstrained exactly for the value \<open>All\<close>
  and type and status exactly for the value \<open>all\<close>, every other value, the empty one
  included, demanding equality; the date lies in the inclusive range, an empty bound
  being absent. And when the \<open>createdAt\<close> of every item is a valid date, the result is
  ordered newest first.
\<close>

theorem search_exact_and_newest_first:
  "mset (sortedItems parse f items) = filter_mset (satisfiesEveryFilter parse f) (mset items)
   \<and> ((\<forall>i \<in> set items. parse (createdAt i) \<noteq> None) \<longrightarrow>
        sorted_wrt (\<lambda>a b. dateGE (parse (createdAt a)) (parse (createdAt b)))
          (sortedItems parse f items))"
proof (intro conjI impI)
  show "mset (sortedItems parse f items) = filter_mset (satisfiesEveryFilter parse f) (mset items)"
    by (simp add: sortedItems_def mset_sortBy filteredItems_satisfies)
next
  assume valid: "\<forall>i \<in> set items. parse (createdAt i) \<noteq> None"
  let ?key = "\<lambda>i. - the (parse (createdAt i))"
  let ?xs = "filteredItems parse f items"
  have sub: "set ?xs \<subseteq> set items"
    by (auto simp: filteredItems_def)
  have eq: "sortedItems parse f items = sort_key ?key ?xs"
    unfolding sortedItems_def
    using valid sub by (intro sortBy_sort_key newestFirst_key) auto
  have "sorted (map ?key (sort_key ?key ?xs))"
    by (rule sorted_sort_key)
  then have "sorted_wrt (\<lambda>a b. ?key a \<le> ?key b) (sort_key ?key ?xs)"
    by (simp add: sorted_map)
  moreover have "set (sort_key ?key ?xs) \<subseteq> set items"
    using sub by simp
  moreover have "dateGE (parse (createdAt a)) (parse (createdAt b))"
    if "a \<in> set items" "b \<in> set items" "?key a \<le> ?key b" for a b
  proof -
    from valid that obtain x y where "parse (createdAt a) = Some x" "parse (createdAt b) = Some y"
      by blast
    with that(3) show ?thesis
      by (simp add: dateGE_def)
  qed
  ultimately show "sorted_wrt (\<lambda>a b. dateGE (parse (createdAt a)) (parse (createdAt b)))
          (sortedItems parse f items)"
    unfolding eq
    by (elim sorted_wrt_mono_rel [rotated]) blast
qed

theorem search_exact_and_newest_first_witness:
  "list_all (\<lambda>i. exampleDates (createdAt i) \<noteq> None) [backpack, keys, rucksack]
   \<and> sortedItems exampleDates (noFilters\<lparr>search := ''BackPack'', dateFrom := ''2024-01-10''\<rparr>)
        [backpack, keys, rucksack] = [rucksack, backpack]
   \<and> sortedItems exampleDates (noFilters\<lparr>search := ''BackPack'', dateTo := ''2024-01-15''\<rparr>)
        [backpack, keys, rucksack] = [backpack]
   \<and> mset [rucksack, backpack] =
       filter_mset
         (satisfiesEveryFilter exampleDates
           (noFilters\<lparr>search := ''BackPack'', dateFrom := ''2024-01-10''\<rparr>))
         (mset [backpack, keys, rucksack])
   \<and> dateGE (exampleDates (createdAt rucksack)) (exampleDates (createdAt backpack))"
proof -
  have valid: "list_all (\<lambda>i. exampleDates (createdAt i) \<noteq> None) [backpack, keys, rucksack]"
    by (simp add: exampleDates_def backpack_def keys_def rucksack_def)
  have r1: "sortedItems exampleDates
      (noFilters\<lparr>search := ''BackPack'', dateFrom := ''2024-01-10''\<rparr>)
      [backpack, keys, rucksack] = [rucksack, backpack]"
    by (simp add: search_eval)
  have r2: "sortedItems exampleDates (noFilters\<lparr>search := ''BackPack'', dateTo := ''2024-01-15''\<rparr>)
      [backpack, keys, rucksack] = [backpack]"
    by (simp add: search_eval)
  show ?thesis
    using search_exact_and_newest_first
      [of exampleDates "noFilters\<lparr>search := ''BackPack'', dateFrom := ''2024-01-10''\<rparr>"
        "[backpack, keys, rucksack]"]
      valid r2
    unfolding r1 by simp
qed

subsection \<open>Top categories and locations\<close>

lemma set_firstSeen: "set (firstSeen xs) = set xs"
  by (induction xs) auto

lemma distinct_firstSeen: "distinct (firstSeen xs)"
  by (induction xs) (auto simp: set_firstSeen)

lemma firstSeen_snoc:
  "firstSeen (xs @ [k]) = (if k \<in> set xs then firstSeen xs else firstSeen xs @ [k])"
  by (induction xs) auto

lemma map_of_frequencyTable:
  "map_of (frequencyTable seen) k = (if k \<in> set seen then Some (count_list seen k) else None)"
  by (auto simp: frequencyTable_def map_of_map_restrict restrict_map_def set_firstSeen)

lemma readCount_frequencyTable:
  "k \<notin> set protoMembers \<Longrightarrow> readCount (frequencyTable seen) k = Some (count_list seen k)"
  by (auto simp: readCount_def map_of_frequencyTable count_list_0_iff)

lemma update_graph_present:
  "distinct xs \<Longrightarrow> k \<in> set xs \<Longrightarrow>
   AList.update k v (map (\<lambda>x. (x, f x)) xs) = map (\<lambda>x. (x, if x = k then v else f x)) xs"
  by (induction xs) auto

lemma update_graph_absent:
  "k \<notin> set xs \<Longrightarrow>
   AList.update k v (map (\<lambda>x. (x, f x)) xs) = map (\<lambda>x. (x, f x)) xs @ [(k, v)]"
  by (induction xs) auto

text \<open>One round of the loop takes the table of the values seen so far to the table of
  the values seen then.\<close>

lemma update_frequencyTable:
  "AList.update k (Suc (count_list seen k)) (frequencyTable seen) = frequencyTable (seen @ [k])"
proof (cases "k \<in> set seen")
  case True
  then show ?thesis
    by (simp add: frequencyTable_def firstSeen_snoc update_graph_present distinct_firstSeen
        set_firstSeen)
next
  case False
  then show ?thesis
    by (auto simp: frequencyTable_def firstSeen_snoc update_graph_absent set_firstSeen)
qed

lemma countInto_frequencyTable:
  "set ks \<inter> set protoMembers = {} \<Longrightarrow>
   countInto (frequencyTable seen) ks = Some (frequencyTable (seen @ ks))"
proof (induction ks arbitrary: seen)
  case Nil
  then show ?case by simp
next
  case (Cons k ks)
  from Cons.prems have k: "k \<notin> set protoMembers" and ks: "set ks \<inter> set protoMembers = {}"
    by auto
  have "countInto (frequencyTable seen) (k # ks) = countInto (frequencyTable (seen @ [k])) ks"
    by (simp add: readCount_frequencyTable [OF k] update_frequencyTable)
  also have "\<dots> = Some (frequencyTable ((seen @ [k]) @ ks))"
    by (rule Cons.IH [OF ks])
  finally show ?case by simp
qed

lemma countInto_empty:
  "set ks \<inter> set protoMembers = {} \<Longrightarrow> countInto [] ks = Some (frequencyTable ks)"
  using countInto_frequencyTable [of ks "[]"] by (simp add: frequencyTable_def)

lemma Object_entries_plain:
  "\<forall>p \<in> set obj. \<not> isArrayIndex (fst p) \<Longrightarrow> Object_entries obj = obj"
  by (simp add: Object_entries_def filter_empty_conv filter_id_conv)

lemma sortBy_byCountDesc: "sortBy byCountDesc xs = sort_key (\<lambda>p. - int (snd p)) xs"
  by (rule sortBy_sort_key) (auto simp: notAfter_def byCountDesc_def)

lemma topTen_ranking:
  assumes "\<forall>v \<in> set vs. ordinaryKey v"
  shows "map_option topTen (countInto [] vs) = Some (frequencyRanking vs)"
proof -
  have "set vs \<inter> set protoMembers = {}"
    using assms by (auto simp: ordinaryKey_def)
  then have c: "countInto [] vs = Some (frequencyTable vs)"
    by (rule countInto_empty)
  have "\<forall>p \<in> set (frequencyTable vs). \<not> isArrayIndex (fst p)"
    using assms by (auto simp: frequencyTable_def set_firstSeen ordinaryKey_def)
  then have "Object_entries (frequencyTable vs) = frequencyTable vs"
    by (rule Object_entries_plain)
  then show ?thesis
    by (simp add: c topTen_def sortBy_byCountDesc frequencyRanking_def)
qed

text \<open>What the ranking of the specification means: before the cut to ten entries the
  counts descend, and the entries of any one count stand as in the frequency table,
  that is, in the order in which their values are first met.\<close>

lemma ranked_table_order:
  "sorted_wrt (\<lambda>a b. snd a \<ge> snd b) (sort_key (\<lambda>p. - int (snd p)) (frequencyTable vs))
   \<and> filter (\<lambda>p. snd p = c) (sort_key (\<lambda>p. - int (snd p)) (frequencyTable vs))
       = filter (\<lambda>p. snd p = c) (frequencyTable vs)"
proof
  have "sorted (map (\<lambda>p. - int (snd p)) (sort_key (\<lambda>p. - int (snd p)) (frequencyTable vs)))"
    by (rule sorted_sort_key)
  then show "sorted_wrt (\<lambda>a b. snd a \<ge> snd b)
      (sort_key (\<lambda>p. - int (snd p)) (frequencyTable vs))"
    by (simp add: sorted_map)
next
  have "filter (\<lambda>p. - int (snd p) = - int c) (sort_key (\<lambda>p. - int (snd p)) (frequencyTable vs))
      = filter (\<lambda>p. - int (snd p) = - int c) (frequencyTable vs)"
    by (rule sort_key_stable)
  then show "filter (\<lambda>p. snd p = c) (sort_key (\<lambda>p. - int (snd p)) (frequencyTable vs))
       = filter (\<lambda>p. snd p = c) (frequencyTable vs)"
    by simp
qed

lemmas top_eval = topCategories_def topLocations_def readCount_def protoMembers_def topTen_def
  Object_entries_def isArrayIndex_def isDigit_def indexValue_def digitValue_def sortBy_def
  byCountDesc_def notAfter_def

text \<open>
  Claim C5, as the source has it. The claim lets equal counts stand in the order in
  which the values are first met, for every item list. \<open>Object.entries\<close> lists keys that
  are array indices first and in numeric order: of the categories \<open>2\<close> and \<open>1\<close>, met in
  this order once each, \<open>1\<close> comes first in the result. And for a category that names a
  member of \<open>Object.prototype\<close> the counter is no number at all.
\<close>

theorem index_keys_are_listed_first:
  "topCategories [backpack\<lparr>category := ''2''\<rparr>, backpack\<lparr>category := ''1''\<rparr>]
     = Some [(''1'', 1), (''2'', 1)]
   \<and> frequencyRanking [''2'', ''1''] = [(''2'', 1), (''1'', 1)]
   \<and> topCategories [backpack\<lparr>category := ''constructor''\<rparr>] = None"
  by (simp add: top_eval backpack_def frequencyRanking_def frequencyTable_def)

text \<open>
  Claim C5, amended. For every item list in which no category (no location) is an array
  index or the name of a member of \<open>Object.prototype\<close>, the top categories (top
  locations) are the frequency count of the values, sorted by descending count, equal
  counts in the order in which the values are first met in the list, cut to at most ten
  entries.
\<close>

theorem top_lists_are_frequency_rankings:
  "((\<forall>i \<in> set items. ordinaryKey (category i)) \<longrightarrow>
      topCategories items = Some (frequencyRanking (map category items)))
   \<and> ((\<forall>i \<in> set items. ordinaryKey (location i)) \<longrightarrow>
      topLocations items = Some (frequencyRanking (map location items)))"
  by (simp add: topCategories_def topLocations_def topTen_ranking)

theorem top_lists_are_frequency_rankings_witness:
  "list_all (\<lambda>i. ordinaryKey (category i) \<and> ordinaryKey (location i))
     [keys, backpack, rucksack, novel]
   \<and> topCategories [keys, backpack, rucksack, novel]
       = Some [(''Bags'', 2), (''Keys'', 1), (''Books'', 1)]
   \<and> topLocations [keys, backpack, rucksack, novel]
       = Some [(''Library'', 2), (''Gym'', 1), (''Cafeteria'', 1)]
   \<and> frequencyRanking (map category [keys, backpack, rucksack, novel])
       = [(''Bags'', 2), (''Keys'', 1), (''Books'', 1)]"
proof -
  have ok: "list_all (\<lambda>i. ordinaryKey (category i) \<and> ordinaryKey (location i))
     [keys, backpack, rucksack, novel]"
    by (simp add: ordinaryKey_def isArrayIndex_def isDigit_def protoMembers_def
        backpack_def keys_def rucksack_def novel_def)
  have c: "topCategories [keys, backpack, rucksack, novel]
       = Some [(''Bags'', 2), (''Keys'', 1), (''Books'', 1)]"
    by (simp add: top_eval backpack_def keys_def rucksack_def novel_def)
  have l: "topLocations [keys, backpack, rucksack, novel]
       = Some [(''Library'', 2), (''Gym'', 1), (''Cafeteria'', 1)]"
    by (simp add: top_eval backpack_def keys_def rucksack_def novel_def)
  show ?thesis
    using top_lists_are_frequency_rankings [of "[keys, backpack, rucksack, novel]"] ok
    unfolding c l by simp
qed

end
